theory Spec2Isabelle
  imports Main
begin

section \<open>The time filter of the data plugin: \<open>get_time.ts\<close>\<close>

text \<open>
  The file \<^verbatim>\<open>src/plugins/data/public/query/timefilter/get_time.ts\<close> exports two
  functions, \<^verbatim>\<open>calculateBounds\<close> and \<^verbatim>\<open>getTime\<close>. Both are straight-line code over
  three imported operations that are not part of the file:
  \<^item> \<^verbatim>\<open>dateMath.parse(text, options)\<close> of the package \<^verbatim>\<open>@elastic/datemath\<close>, which yields
    a moment or \<^verbatim>\<open>undefined\<close>;
  \<^item> \<^verbatim>\<open>toISOString()\<close> of the moment that \<^verbatim>\<open>dateMath.parse\<close> yields, whose value is a
    string or \<^verbatim>\<open>null\<close>;
  \<^item> \<^verbatim>\<open>buildRangeFilter(field, params, indexPattern)\<close> of \<^verbatim>\<open>../../../common\<close>.

  The embedding takes the three as parameters \<open>parse\<close>, \<open>toISOString\<close> and
  \<open>buildRangeFilter\<close>, so every theorem below holds for whatever these operations
  compute. The instant type \<open>'m\<close>, the type \<open>'d\<close> of a \<^verbatim>\<open>Date\<close> and the filter type
  \<open>'flt\<close> are type variables for the same reason. A JavaScript value that may be
  \<^verbatim>\<open>undefined\<close> is an \<open>option\<close>, with \<open>None\<close> for \<^verbatim>\<open>undefined\<close>.

  The three operations are functions here, so the embedding describes the runs in which
  they return. A run in which one of them raises has no counterpart in it, and no
  theorem below says anything about such a run.
\<close>

subsection \<open>Data\<close>

text \<open>
  \<^verbatim>\<open>TimeRange\<close>: the two date expressions \<^verbatim>\<open>from\<close> and \<^verbatim>\<open>to\<close>. (\<open>from\<close> is a keyword of
  Isabelle, so both selectors carry the suffix \<open>_expr\<close>.)
\<close>

record TimeRange =
  from_expr :: string
  to_expr :: string

text \<open>\<^verbatim>\<open>interface CalculateBoundsOptions { forceNow?: Date; }\<close>\<close>

record 'd CalculateBoundsOptions =
  forceNow :: "'d option"

text \<open>
  The options object literal handed to \<^verbatim>\<open>dateMath.parse\<close>. The first call of
  \<^verbatim>\<open>calculateBounds\<close> writes \<^verbatim>\<open>{ forceNow: ... }\<close>, with no \<^verbatim>\<open>roundUp\<close> key at all; the
  second writes \<^verbatim>\<open>{ roundUp: true, forceNow: ... }\<close>. An absent key is \<open>None\<close>.
\<close>

record 'd ParseOptions =
  roundUp :: "bool option"
  forceNowOpt :: "'d option"

text \<open>
  The object \<^verbatim>\<open>{ min: ..., max: ... }\<close> that \<^verbatim>\<open>calculateBounds\<close> returns. (\<open>min\<close> and \<open>max\<close>
  are constants of HOL, so the selectors carry the suffix \<open>_bound\<close>.)
\<close>

record 'm Bounds =
  min_bound :: "'m option"
  max_bound :: "'m option"

text \<open>
  \<^verbatim>\<open>IFieldType\<close> and \<^verbatim>\<open>IIndexPattern\<close>, as far as \<^verbatim>\<open>getTime\<close> reads them: the \<^verbatim>\<open>name\<close> of a
  field, and the \<^verbatim>\<open>fields\<close> array and the optional \<^verbatim>\<open>timeFieldName\<close> of an index pattern.
  Records are extensible, so a field may carry more than its name. (\<open>fields\<close> is a
  name that every record declaration uses itself, so the selector is \<open>fields_list\<close>.)
\<close>

record IFieldType =
  name :: string

record 'f IIndexPattern =
  fields_list :: "'f list"
  timeFieldName :: "string option"

text \<open>
  The params object literal of \<^verbatim>\<open>getTime\<close> is a list of key-value pairs in the order in
  which the literal writes its keys. A value is a string (the literal under \<^verbatim>\<open>format\<close>,
  the text that \<^verbatim>\<open>toISOString\<close> gives) or \<^verbatim>\<open>null\<close>, which \<^verbatim>\<open>toISOString\<close> gives for a moment
  that is not valid.
\<close>

datatype js_value = JSNull | JSString string

type_synonym RangeParams = "(string \<times> js_value) list"

subsection \<open>\<^verbatim>\<open>calculateBounds\<close>\<close>

text \<open>
  \<^verbatim>\<open>
  export function calculateBounds(timeRange: TimeRange, options: CalculateBoundsOptions = {}) {
    return {
      min: dateMath.parse(timeRange.from, { forceNow: options.forceNow }),
      max: dateMath.parse(timeRange.to, { roundUp: true, forceNow: options.forceNow }),
    };
  }
  \<close>
  The default value \<^verbatim>\<open>{}\<close> of \<^verbatim>\<open>options\<close> is taken when the caller passes none.
\<close>

definition calculateBounds ::
  "(string \<Rightarrow> 'd ParseOptions \<Rightarrow> 'm option) \<Rightarrow> 'a TimeRange_scheme \<Rightarrow>
   'd CalculateBoundsOptions option \<Rightarrow> 'm Bounds"
where
  "calculateBounds parse timeRange options_arg =
     (let options = (case options_arg of
                       None \<Rightarrow> \<lparr>forceNow = None\<rparr>
                     | Some given \<Rightarrow> given)
      in \<lparr>min_bound = parse (from_expr timeRange)
                        \<lparr>roundUp = None, forceNowOpt = forceNow options\<rparr>,
          max_bound = parse (to_expr timeRange)
                        \<lparr>roundUp = Some True, forceNowOpt = forceNow options\<rparr>\<rparr>)"

subsection \<open>\<^verbatim>\<open>getTime\<close>\<close>

text \<open>
  \<^verbatim>\<open>!bounds\<close>, where \<^verbatim>\<open>bounds\<close> is the object that \<^verbatim>\<open>calculateBounds\<close> returned: the
  conversion of an object to a boolean is \<^verbatim>\<open>true\<close> in JavaScript, whatever its
  properties hold, so its negation is \<^verbatim>\<open>false\<close>.
\<close>

definition not_object :: "'m Bounds \<Rightarrow> bool" where
  "not_object bounds = False"

text \<open>
  The params object literal
  \<^verbatim>\<open>
    {
      ...(bounds.min && { gte: bounds.min.toISOString() }),
      ...(bounds.max && { lte: bounds.max.toISOString() }),
      format: 'strict_date_optional_time',
    }
  \<close>
  Spreading \<^verbatim>\<open>undefined\<close> adds no key; spreading \<^verbatim>\<open>{ gte: ... }\<close> adds that key. The left
  operand of \<^verbatim>\<open>&&\<close> is \<^verbatim>\<open>undefined\<close> or a moment, and every moment is an object, so the
  key is written for every moment, valid or not.
\<close>

definition rangeParams :: "('m \<Rightarrow> js_value) \<Rightarrow> 'm Bounds \<Rightarrow> RangeParams" where
  "rangeParams toISOString bounds =
     (case min_bound bounds of
        None \<Rightarrow> []
      | Some lo \<Rightarrow> [(''gte'', toISOString lo)]) @
     (case max_bound bounds of
        None \<Rightarrow> []
      | Some hi \<Rightarrow> [(''lte'', toISOString hi)]) @
     [(''format'', JSString ''strict_date_optional_time'')]"

text \<open>
  \<^verbatim>\<open>
  export function getTime(indexPattern, timeRange, forceNow?) {
    if (!indexPattern) { return; }
    const timefield = indexPattern.fields.find(
      field => field.name === indexPattern.timeFieldName);
    if (!timefield) { return; }
    const bounds = calculateBounds(timeRange, { forceNow });
    if (!bounds) { return; }
    return buildRangeFilter(timefield, { ... }, indexPattern);
  }
  \<close>
  A \<^verbatim>\<open>return;\<close> without a value is \<open>None\<close>. The strict equality of a field's name with
  the optional \<^verbatim>\<open>timeFieldName\<close> is the equality of \<open>Some (name field)\<close> with it: no name
  equals \<^verbatim>\<open>undefined\<close>.
\<close>

definition getTime ::
  "(string \<Rightarrow> 'd ParseOptions \<Rightarrow> 'm option) \<Rightarrow> ('m \<Rightarrow> js_value) \<Rightarrow>
   ('a IFieldType_scheme \<Rightarrow> RangeParams \<Rightarrow> 'a IFieldType_scheme IIndexPattern \<Rightarrow> 'flt) \<Rightarrow>
   'a IFieldType_scheme IIndexPattern option \<Rightarrow> 'b TimeRange_scheme \<Rightarrow> 'd option \<Rightarrow>
   'flt option"
where
  "getTime parse toISOString buildRangeFilter indexPattern_arg timeRange forceNow_arg =
     (case indexPattern_arg of
        None \<Rightarrow> None
      | Some indexPattern \<Rightarrow>
          (case find (\<lambda>field. Some (name field) = timeFieldName indexPattern)
                  (fields_list indexPattern) of
             None \<Rightarrow> None
           | Some timefield \<Rightarrow>
               (let bounds = calculateBounds parse timeRange
                               (Some \<lparr>forceNow = forceNow_arg\<rparr>)
                in if not_object bounds then None
                   else Some (buildRangeFilter timefield
                                (rangeParams toISOString bounds) indexPattern))))"

subsection \<open>The imported operations at the inputs of the examples\<close>

text \<open>
  The theorems below hold for every \<open>parse\<close>, \<open>toISOString\<close> and \<open>buildRangeFilter\<close>.
  To run \<open>getTime\<close> on concrete inputs, the three are instantiated with the values that
  the library operations have at the texts the examples use.

  A moment is either valid, and then represented by the ISO-8601 text that its
  \<^verbatim>\<open>toISOString\<close> gives, or not valid; \<^verbatim>\<open>toISOString\<close> of a moment that is not valid is
  \<^verbatim>\<open>null\<close>. A \<^verbatim>\<open>Date\<close> is represented by its ISO-8601 text as well.
\<close>

datatype moment = Instant string | InvalidMoment

fun observed_toISOString :: "moment \<Rightarrow> js_value" where
  "observed_toISOString (Instant iso_text) = JSString iso_text"
| "observed_toISOString InvalidMoment = JSNull"

text \<open>
  \<open>observed_parse clock\<close> is a table of \<^verbatim>\<open>dateMath.parse\<close>, where \<open>clock\<close> is the reading of
  the clock at the call:
  \<^item> the empty text yields \<^verbatim>\<open>undefined\<close>;
  \<^item> \<^verbatim>\<open>now\<close> yields the moment of \<^verbatim>\<open>forceNow\<close> when that is given and of the clock
    otherwise, with or without \<^verbatim>\<open>roundUp\<close> (there is no unit to round to);
  \<^item> \<^verbatim>\<open>now+\<close>, date math that breaks off after its operator, yields \<^verbatim>\<open>undefined\<close>;
  \<^item> a text that is neither a date nor date math, such as \<^verbatim>\<open>then\<close> and \<^verbatim>\<open>soon\<close>, yields a
    moment that is not valid. It is an object all the same, so it is not \<^verbatim>\<open>undefined\<close>.

  The table has no rows for dates and for texts that begin with \<^verbatim>\<open>now\<close> other than the
  two above; such texts fall under its last row, and no example below uses one.
\<close>

definition observed_parse :: "string \<Rightarrow> string \<Rightarrow> string ParseOptions \<Rightarrow> moment option" where
  "observed_parse clock text opts =
     (if text = '''' then None
      else if text = ''now''
      then Some (Instant (case forceNowOpt opts of
                            None \<Rightarrow> clock
                          | Some date \<Rightarrow> date))
      else if text = ''now+'' then None
      else Some InvalidMoment)"

text \<open>
  \<open>example_buildRangeFilter\<close> returns its three arguments as they are, so that the
  result of \<open>getTime\<close> shows what \<^verbatim>\<open>buildRangeFilter\<close> was called with.
\<close>

definition example_buildRangeFilter ::
  "IFieldType \<Rightarrow> RangeParams \<Rightarrow> IFieldType IIndexPattern \<Rightarrow>
   IFieldType \<times> RangeParams \<times> IFieldType IIndexPattern"
where
  "example_buildRangeFilter field params indexPattern = (field, params, indexPattern)"

text \<open>An index pattern with its time field, and one whose time field is not among its fields.\<close>

definition logs_pattern :: "IFieldType IIndexPattern" where
  "logs_pattern =
     \<lparr>fields_list = [\<lparr>name = ''bytes''\<rparr>, \<lparr>name = ''@timestamp''\<rparr>],
      timeFieldName = Some ''@timestamp''\<rparr>"

definition stale_pattern :: "IFieldType IIndexPattern" where
  "stale_pattern =
     \<lparr>fields_list = [\<lparr>name = ''bytes''\<rparr>, \<lparr>name = ''host''\<rparr>],
      timeFieldName = Some ''@timestamp''\<rparr>"

text \<open>The reading of the clock in the examples; no example depends on it.\<close>

definition clock_reading :: string where
  "clock_reading = ''2020-05-01T11:59:00.000Z''"

section \<open>Properties\<close>

text \<open>
  C3. \<^verbatim>\<open>calculateBounds\<close> returns the pair whose \<^verbatim>\<open>min\<close> is the parse of \<^verbatim>\<open>from\<close> with no
  \<^verbatim>\<open>roundUp\<close> option and whose \<^verbatim>\<open>max\<close> is the parse of \<^verbatim>\<open>to\<close> with \<^verbatim>\<open>roundUp: true\<close>; both
  parses receive the caller's \<^verbatim>\<open>forceNow\<close>, which is \<^verbatim>\<open>undefined\<close> when the caller
  passes no options.
\<close>

theorem calculateBounds_pair:
  "calculateBounds parse timeRange (Some \<lparr>forceNow = now\<rparr>) =
     \<lparr>min_bound = parse (from_expr timeRange) \<lparr>roundUp = None, forceNowOpt = now\<rparr>,
      max_bound = parse (to_expr timeRange) \<lparr>roundUp = Some True, forceNowOpt = now\<rparr>\<rparr>
   \<and> calculateBounds parse timeRange None =
     \<lparr>min_bound = parse (from_expr timeRange) \<lparr>roundUp = None, forceNowOpt = None\<rparr>,
      max_bound = parse (to_expr timeRange) \<lparr>roundUp = Some True, forceNowOpt = None\<rparr>\<rparr>"
  by (simp add: calculateBounds_def)

subsection \<open>Auxiliary facts\<close>

lemma rangeParams_gte:
  "map_of (rangeParams toISOString bounds) ''gte'' = map_option toISOString (min_bound bounds)"
  by (simp add: rangeParams_def split: option.split)

lemma rangeParams_lte:
  "map_of (rangeParams toISOString bounds) ''lte'' = map_option toISOString (max_bound bounds)"
  by (simp add: rangeParams_def split: option.split)

lemma rangeParams_format:
  "map_of (rangeParams toISOString bounds) ''format'' =
     Some (JSString ''strict_date_optional_time'')"
  by (simp add: rangeParams_def split: option.split)



lemma rangeParams_has_gte:
  "(''gte'' \<in> fst ` set (rangeParams toISOString bounds)) = (min_bound bounds \<noteq> None)"
  by (cases "min_bound bounds"; cases "max_bound bounds") (simp_all add: rangeParams_def)

lemma rangeParams_has_lte:
  "(''lte'' \<in> fst ` set (rangeParams toISOString bounds)) = (max_bound bounds \<noteq> None)"
  by (cases "min_bound bounds"; cases "max_bound bounds") (simp_all add: rangeParams_def)

lemma calculateBounds_min:
  "min_bound (calculateBounds parse timeRange (Some \<lparr>forceNow = now\<rparr>)) =
     parse (from_expr timeRange) \<lparr>roundUp = None, forceNowOpt = now\<rparr>"
  by (simp add: calculateBounds_def)

lemma calculateBounds_max:
  "max_bound (calculateBounds parse timeRange (Some \<lparr>forceNow = now\<rparr>)) =
     parse (to_expr timeRange) \<lparr>roundUp = Some True, forceNowOpt = now\<rparr>"
  by (simp add: calculateBounds_def)

text \<open>The three ways out of \<open>getTime\<close>, one per \<^verbatim>\<open>return\<close> that can be reached.\<close>

lemma getTime_undefined_pattern:
  "getTime parse toISOString buildRangeFilter None timeRange now = None"
  by (simp add: getTime_def)

lemma getTime_not_found:
  assumes "find (\<lambda>field. Some (name field) = timeFieldName indexPattern)
             (fields_list indexPattern) = None"
  shows "getTime parse toISOString buildRangeFilter (Some indexPattern) timeRange now = None"
  using assms by (simp add: getTime_def)

lemma getTime_found:
  assumes "find (\<lambda>field. Some (name field) = timeFieldName indexPattern)
             (fields_list indexPattern) = Some timefield"
  shows "getTime parse toISOString buildRangeFilter (Some indexPattern) timeRange now =
           Some (buildRangeFilter timefield
                   (rangeParams toISOString
                      (calculateBounds parse timeRange (Some \<lparr>forceNow = now\<rparr>)))
                   indexPattern)"
  using assms by (simp add: getTime_def not_object_def)

lemma getTime_SomeD:
  assumes "getTime parse toISOString buildRangeFilter indexPattern_arg timeRange now = Some flt"
  obtains indexPattern timefield where
    "indexPattern_arg = Some indexPattern"
    "find (\<lambda>field. Some (name field) = timeFieldName indexPattern)
       (fields_list indexPattern) = Some timefield"
    "flt = buildRangeFilter timefield
             (rangeParams toISOString
                (calculateBounds parse timeRange (Some \<lparr>forceNow = now\<rparr>)))
             indexPattern"
  using assms
  by (auto simp add: getTime_def not_object_def split: option.splits)

lemma find_logs_pattern:
  "find (\<lambda>field. Some (name field) = timeFieldName logs_pattern) (fields_list logs_pattern) =
     Some \<lparr>name = ''@timestamp''\<rparr>"
  by (simp add: logs_pattern_def)

lemma find_stale_pattern:
  "find (\<lambda>field. Some (name field) = timeFieldName stale_pattern) (fields_list stale_pattern) =
     None"
  by (simp add: stale_pattern_def)

text \<open>
  \<open>getTime\<close> on the index pattern \<open>logs_pattern\<close>, with the operations of the examples:
  the call of \<^verbatim>\<open>buildRangeFilter\<close> on the field \<^verbatim>\<open>@timestamp\<close>.
\<close>

lemma getTime_logs_pattern:
  "getTime (observed_parse clock) observed_toISOString example_buildRangeFilter
     (Some logs_pattern) timeRange now =
   Some (\<lparr>name = ''@timestamp''\<rparr>,
         rangeParams observed_toISOString
           (calculateBounds (observed_parse clock) timeRange (Some \<lparr>forceNow = now\<rparr>)),
         logs_pattern)"
  by (simp add: getTime_found [OF find_logs_pattern] example_buildRangeFilter_def)

lemmas run_simps =
  getTime_logs_pattern rangeParams_def calculateBounds_def observed_parse_def

subsection \<open>No index pattern, or no time field\<close>

text \<open>
  C2. For every time range and every \<^verbatim>\<open>forceNow\<close>, given or not, \<open>getTime\<close> returns
  \<^verbatim>\<open>undefined\<close> when the index pattern is \<^verbatim>\<open>undefined\<close>, and also when no field of
  \<^verbatim>\<open>indexPattern.fields\<close> has a name equal to \<^verbatim>\<open>indexPattern.timeFieldName\<close>.
\<close>

theorem getTime_no_target:
  "getTime parse toISOString buildRangeFilter None timeRange now = None \<and>
   ((\<forall>field \<in> set (fields_list indexPattern).
        Some (name field) \<noteq> timeFieldName indexPattern) \<longrightarrow>
    getTime parse toISOString buildRangeFilter (Some indexPattern) timeRange now = None)"
proof (intro conjI impI)
  show "getTime parse toISOString buildRangeFilter None timeRange now = None"
    by (rule getTime_undefined_pattern)
next
  assume none: "\<forall>field \<in> set (fields_list indexPattern).
                  Some (name field) \<noteq> timeFieldName indexPattern"
  then have "find (\<lambda>field. Some (name field) = timeFieldName indexPattern)
               (fields_list indexPattern) = None"
    by (simp add: find_None_iff)
  then show "getTime parse toISOString buildRangeFilter (Some indexPattern) timeRange now = None"
    by (rule getTime_not_found)
qed

theorem getTime_no_target_witness:
  "getTime (observed_parse clock_reading) observed_toISOString example_buildRangeFilter None
     \<lparr>from_expr = ''now'', to_expr = ''now''\<rparr> (Some ''2020-05-01T12:00:00.000Z'') = None \<and>
   getTime (observed_parse clock_reading) observed_toISOString example_buildRangeFilter
     (Some stale_pattern)
     \<lparr>from_expr = ''now'', to_expr = ''now''\<rparr> (Some ''2020-05-01T12:00:00.000Z'') = None"
proof -
  have none: "\<forall>field \<in> set (fields_list stale_pattern).
                Some (name field) \<noteq> timeFieldName stale_pattern"
    by (simp add: stale_pattern_def)
  from getTime_no_target [where parse = "observed_parse clock_reading"
      and toISOString = observed_toISOString
      and buildRangeFilter = example_buildRangeFilter and indexPattern = stale_pattern
      and timeRange = "\<lparr>from_expr = ''now'', to_expr = ''now''\<rparr>"
      and now = "Some ''2020-05-01T12:00:00.000Z''"] none
  show ?thesis by blast
qed

subsection \<open>The filter that is emitted\<close>



text \<open>
  C5. \<open>getTime\<close> emits a filter only if the time field exists: on every input on which
  it returns a filter, the index pattern is defined, one of its fields has the name
  \<^verbatim>\<open>timeFieldName\<close>, and \<^verbatim>\<open>buildRangeFilter\<close> was called on that field, which is the first
  field of that name in \<^verbatim>\<open>indexPattern.fields\<close>, and on that index pattern.
\<close>

theorem getTime_filter_needs_field:
  assumes "getTime parse toISOString buildRangeFilter indexPattern_arg timeRange now = Some flt"
  shows "\<exists>indexPattern timefield.
           indexPattern_arg = Some indexPattern \<and>
           timefield \<in> set (fields_list indexPattern) \<and>
           Some (name timefield) = timeFieldName indexPattern \<and>
           find (\<lambda>field. Some (name field) = timeFieldName indexPattern)
             (fields_list indexPattern) = Some timefield \<and>
           flt = buildRangeFilter timefield
                   (rangeParams toISOString
                      (calculateBounds parse timeRange (Some \<lparr>forceNow = now\<rparr>)))
                   indexPattern"
proof -
  from assms obtain indexPattern timefield where
    arg: "indexPattern_arg = Some indexPattern" and
    found: "find (\<lambda>field. Some (name field) = timeFieldName indexPattern)
              (fields_list indexPattern) = Some timefield" and
    flt: "flt = buildRangeFilter timefield
            (rangeParams toISOString
               (calculateBounds parse timeRange (Some \<lparr>forceNow = now\<rparr>)))
            indexPattern"
    by (rule getTime_SomeD)
  from found have "timefield \<in> set (fields_list indexPattern)"
    and "Some (name timefield) = timeFieldName indexPattern"
    by (auto simp add: find_Some_iff)
  with arg found flt show ?thesis by blast
qed

theorem getTime_filter_needs_field_witness:
  "\<lparr>name = ''@timestamp''\<rparr> \<in> set (fields_list logs_pattern) \<and>
   timeFieldName logs_pattern = Some ''@timestamp'' \<and>
   getTime (observed_parse clock_reading) observed_toISOString example_buildRangeFilter
     (Some logs_pattern)
     \<lparr>from_expr = ''now'', to_expr = ''now+''\<rparr> (Some ''2020-05-01T12:00:00.000Z'') =
     Some (\<lparr>name = ''@timestamp''\<rparr>,
           [(''gte'', JSString ''2020-05-01T12:00:00.000Z''),
            (''format'', JSString ''strict_date_optional_time'')],
           logs_pattern)"
proof -
  have run: "getTime (observed_parse clock_reading) observed_toISOString
       example_buildRangeFilter (Some logs_pattern)
       \<lparr>from_expr = ''now'', to_expr = ''now+''\<rparr> (Some ''2020-05-01T12:00:00.000Z'') =
     Some (\<lparr>name = ''@timestamp''\<rparr>,
           [(''gte'', JSString ''2020-05-01T12:00:00.000Z''),
            (''format'', JSString ''strict_date_optional_time'')],
           logs_pattern)"
    by (simp add: run_simps)
  from getTime_filter_needs_field [OF run] obtain indexPattern timefield where
    ip: "Some logs_pattern = Some indexPattern" and
    mem: "timefield \<in> set (fields_list indexPattern)" and
    nm: "Some (name timefield) = timeFieldName indexPattern" and
    found: "find (\<lambda>field. Some (name field) = timeFieldName indexPattern)
              (fields_list indexPattern) = Some timefield"
    by blast
  from ip have ip': "indexPattern = logs_pattern" by simp
  from found have tf: "timefield = \<lparr>name = ''@timestamp''\<rparr>"
    by (simp add: ip' find_logs_pattern)
  from mem have "\<lparr>name = ''@timestamp''\<rparr> \<in> set (fields_list logs_pattern)"
    by (simp only: ip' tf)
  moreover from nm have "timeFieldName logs_pattern = Some ''@timestamp''"
    by (simp add: ip' tf)
  ultimately show ?thesis using run by simp
qed

subsection \<open>Bounds that do not parse\<close>

text \<open>
  C7. The guard \<^verbatim>\<open>if (!bounds) return;\<close> is never taken: \<^verbatim>\<open>calculateBounds\<close> returns an
  object for every time range and every options argument, and the negation of an object
  is false. So \<open>getTime\<close> returns \<^verbatim>\<open>undefined\<close> exactly when the index pattern is
  \<^verbatim>\<open>undefined\<close> or \<^verbatim>\<open>find\<close> yields no time field, and for no other reason.
\<close>

theorem bounds_guard_dead:
  "\<not> not_object (calculateBounds parse timeRange options_arg) \<and>
   (getTime parse toISOString buildRangeFilter indexPattern_arg timeRange now = None) =
     (indexPattern_arg = None \<or>
      (\<exists>indexPattern. indexPattern_arg = Some indexPattern \<and>
         find (\<lambda>field. Some (name field) = timeFieldName indexPattern)
           (fields_list indexPattern) = None))"
proof (rule conjI)
  show "\<not> not_object (calculateBounds parse timeRange options_arg)"
    by (simp add: not_object_def)
next
  show "(getTime parse toISOString buildRangeFilter indexPattern_arg timeRange now = None) =
     (indexPattern_arg = None \<or>
      (\<exists>indexPattern. indexPattern_arg = Some indexPattern \<and>
         find (\<lambda>field. Some (name field) = timeFieldName indexPattern)
           (fields_list indexPattern) = None))"
  proof (cases indexPattern_arg)
    case None
    then show ?thesis by (simp add: getTime_undefined_pattern)
  next
    case (Some indexPattern)
    show ?thesis
    proof (cases "find (\<lambda>field. Some (name field) = timeFieldName indexPattern)
                    (fields_list indexPattern)")
      case None
      with Some show ?thesis by (simp add: getTime_not_found)
    next
      case (Some timefield)
      with \<open>indexPattern_arg = Some indexPattern\<close> show ?thesis
        by (simp add: getTime_found)
    qed
  qed
qed

theorem bounds_guard_dead_witness:
  "getTime (observed_parse clock_reading) observed_toISOString example_buildRangeFilter
     (Some logs_pattern)
     \<lparr>from_expr = '''', to_expr = ''now+''\<rparr> None \<noteq> None"
proof -
  have "find (\<lambda>field. Some (name field) = timeFieldName logs_pattern)
          (fields_list logs_pattern) \<noteq> None"
    by (simp add: find_logs_pattern)
  with bounds_guard_dead [where parse = "observed_parse clock_reading"
      and toISOString = observed_toISOString
      and buildRangeFilter = example_buildRangeFilter
      and indexPattern_arg = "Some logs_pattern"
      and timeRange = "\<lparr>from_expr = '''', to_expr = ''now+''\<rparr>" and now = None]
  show ?thesis by simp
qed

text \<open>
  C1, as the code has it. When \<^verbatim>\<open>dateMath.parse\<close> returns \<^verbatim>\<open>undefined\<close> for \<^verbatim>\<open>from\<close> and for
  \<^verbatim>\<open>to\<close>, and the index pattern contains its time field, \<open>getTime\<close> does not return
  \<^verbatim>\<open>undefined\<close>: it returns the filter that \<^verbatim>\<open>buildRangeFilter\<close> builds on the time field
  with the params \<^verbatim>\<open>{ format: 'strict_date_optional_time' }\<close>, which have neither \<^verbatim>\<open>gte\<close>
  nor \<^verbatim>\<open>lte\<close>.
\<close>

theorem getTime_unparseable_filter:
  assumes "parse (from_expr timeRange) \<lparr>roundUp = None, forceNowOpt = now\<rparr> = None"
    and "parse (to_expr timeRange) \<lparr>roundUp = Some True, forceNowOpt = now\<rparr> = None"
    and "\<exists>field \<in> set (fields_list indexPattern).
           Some (name field) = timeFieldName indexPattern"
  shows "\<exists>timefield.
           find (\<lambda>field. Some (name field) = timeFieldName indexPattern)
             (fields_list indexPattern) = Some timefield \<and>
           getTime parse toISOString buildRangeFilter (Some indexPattern) timeRange now =
             Some (buildRangeFilter timefield
                     [(''format'', JSString ''strict_date_optional_time'')] indexPattern) \<and>
           getTime parse toISOString buildRangeFilter (Some indexPattern) timeRange now \<noteq> None \<and>
           map_of [(''format'', JSString ''strict_date_optional_time'')] ''gte'' = None \<and>
           map_of [(''format'', JSString ''strict_date_optional_time'')] ''lte'' = None"
proof -
  from assms(3) obtain timefield where
    found: "find (\<lambda>field. Some (name field) = timeFieldName indexPattern)
              (fields_list indexPattern) = Some timefield"
    by (cases "find (\<lambda>field. Some (name field) = timeFieldName indexPattern)
                 (fields_list indexPattern)") (auto simp add: find_None_iff)
  have params: "rangeParams toISOString
          (calculateBounds parse timeRange (Some \<lparr>forceNow = now\<rparr>)) =
        [(''format'', JSString ''strict_date_optional_time'')]"
    using assms(1,2) by (simp add: rangeParams_def calculateBounds_def)
  have "getTime parse toISOString buildRangeFilter (Some indexPattern) timeRange now =
          Some (buildRangeFilter timefield
                  (rangeParams toISOString
                     (calculateBounds parse timeRange (Some \<lparr>forceNow = now\<rparr>)))
                  indexPattern)"
    by (rule getTime_found [OF found])
  with params found show ?thesis by simp
qed

theorem getTime_unparseable_filter_witness:
  "observed_parse clock_reading '''' \<lparr>roundUp = None, forceNowOpt = Some ''2020-05-01T12:00:00.000Z''\<rparr> = None \<and>
   observed_parse clock_reading ''now+''
     \<lparr>roundUp = Some True, forceNowOpt = Some ''2020-05-01T12:00:00.000Z''\<rparr> = None \<and>
   getTime (observed_parse clock_reading) observed_toISOString example_buildRangeFilter
     (Some logs_pattern)
     \<lparr>from_expr = '''', to_expr = ''now+''\<rparr> (Some ''2020-05-01T12:00:00.000Z'') =
     Some (\<lparr>name = ''@timestamp''\<rparr>,
           [(''format'', JSString ''strict_date_optional_time'')],
           logs_pattern)"
proof -
  have lo: "observed_parse clock_reading
              (from_expr \<lparr>from_expr = '''', to_expr = ''now+''\<rparr>)
              \<lparr>roundUp = None, forceNowOpt = Some ''2020-05-01T12:00:00.000Z''\<rparr> = None"
    by (simp add: observed_parse_def)
  have hi: "observed_parse clock_reading
              (to_expr \<lparr>from_expr = '''', to_expr = ''now+''\<rparr>)
              \<lparr>roundUp = Some True, forceNowOpt = Some ''2020-05-01T12:00:00.000Z''\<rparr> = None"
    by (simp add: observed_parse_def)
  have field: "\<exists>field \<in> set (fields_list logs_pattern).
                 Some (name field) = timeFieldName logs_pattern"
    by (simp add: logs_pattern_def)
  from getTime_unparseable_filter [OF lo hi field, where toISOString = observed_toISOString
      and buildRangeFilter = example_buildRangeFilter]
  have "getTime (observed_parse clock_reading) observed_toISOString example_buildRangeFilter
          (Some logs_pattern)
          \<lparr>from_expr = '''', to_expr = ''now+''\<rparr> (Some ''2020-05-01T12:00:00.000Z'') =
        Some (example_buildRangeFilter \<lparr>name = ''@timestamp''\<rparr>
                [(''format'', JSString ''strict_date_optional_time'')] logs_pattern)"
    by (simp add: find_logs_pattern)
  with lo hi show ?thesis by (simp add: example_buildRangeFilter_def)
qed

text \<open>
  C1, as the specification states it, fails: for the time range from the empty text to
  \<^verbatim>\<open>now+\<close>, \<^verbatim>\<open>dateMath.parse\<close> returns \<^verbatim>\<open>undefined\<close> for both bounds, the index pattern
  contains its time field \<^verbatim>\<open>@timestamp\<close>, and \<open>getTime\<close> returns a filter, not \<^verbatim>\<open>undefined\<close>.
\<close>

theorem getTime_unparseable_counterexample:
  "observed_parse clock_reading '''' \<lparr>roundUp = None, forceNowOpt = None\<rparr> = None \<and>
   observed_parse clock_reading ''now+'' \<lparr>roundUp = Some True, forceNowOpt = None\<rparr> = None \<and>
   \<lparr>name = ''@timestamp''\<rparr> \<in> set (fields_list logs_pattern) \<and>
   timeFieldName logs_pattern = Some ''@timestamp'' \<and>
   getTime (observed_parse clock_reading) observed_toISOString example_buildRangeFilter
     (Some logs_pattern)
     \<lparr>from_expr = '''', to_expr = ''now+''\<rparr> None =
     Some (\<lparr>name = ''@timestamp''\<rparr>,
           [(''format'', JSString ''strict_date_optional_time'')],
           logs_pattern) \<and>
   getTime (observed_parse clock_reading) observed_toISOString example_buildRangeFilter
     (Some logs_pattern)
     \<lparr>from_expr = '''', to_expr = ''now+''\<rparr> None \<noteq> None"
  by (simp add: run_simps) (simp add: logs_pattern_def)

text \<open>
  C8, as the code has it. Once the index pattern is defined and its time field is found,
  what \<open>getTime\<close> returns is not \<^verbatim>\<open>undefined\<close> but the filter that \<^verbatim>\<open>buildRangeFilter\<close>
  builds on the time field. Its params leave out \<^verbatim>\<open>gte\<close> exactly when \<^verbatim>\<open>dateMath.parse\<close>
  returns \<^verbatim>\<open>undefined\<close> for \<^verbatim>\<open>from\<close>, and \<^verbatim>\<open>lte\<close> exactly when it returns \<^verbatim>\<open>undefined\<close> for
  \<^verbatim>\<open>to\<close>; when it does so for both, the params are \<^verbatim>\<open>format\<close> alone. A bound for which
  \<^verbatim>\<open>dateMath.parse\<close> returns a moment keeps its key, with the value that \<^verbatim>\<open>toISOString\<close>
  gives for that moment. The params contain \<^verbatim>\<open>format: 'strict_date_optional_time'\<close> in
  every case.
\<close>

theorem getTime_found_always_filter:
  assumes "find (\<lambda>field. Some (name field) = timeFieldName indexPattern)
             (fields_list indexPattern) = Some timefield"
  shows "\<exists>params.
           getTime parse toISOString buildRangeFilter (Some indexPattern) timeRange now =
             Some (buildRangeFilter timefield params indexPattern) \<and>
           params = rangeParams toISOString
                      (calculateBounds parse timeRange (Some \<lparr>forceNow = now\<rparr>)) \<and>
           (''gte'' \<in> fst ` set params) =
             (parse (from_expr timeRange) \<lparr>roundUp = None, forceNowOpt = now\<rparr> \<noteq> None) \<and>
           (''lte'' \<in> fst ` set params) =
             (parse (to_expr timeRange) \<lparr>roundUp = Some True, forceNowOpt = now\<rparr> \<noteq> None) \<and>
           map_of params ''gte'' =
             map_option toISOString
               (parse (from_expr timeRange) \<lparr>roundUp = None, forceNowOpt = now\<rparr>) \<and>
           map_of params ''lte'' =
             map_option toISOString
               (parse (to_expr timeRange) \<lparr>roundUp = Some True, forceNowOpt = now\<rparr>) \<and>
           ((''format'', JSString ''strict_date_optional_time'')) \<in> set params \<and>
           map_of params ''format'' = Some (JSString ''strict_date_optional_time'') \<and>
           (parse (from_expr timeRange) \<lparr>roundUp = None, forceNowOpt = now\<rparr> = None \<and>
            parse (to_expr timeRange) \<lparr>roundUp = Some True, forceNowOpt = now\<rparr> = None \<longrightarrow>
            params = [(''format'', JSString ''strict_date_optional_time'')])"
proof -
  let ?bounds = "calculateBounds parse timeRange (Some \<lparr>forceNow = now\<rparr>)"
  let ?params = "rangeParams toISOString ?bounds"
  have run: "getTime parse toISOString buildRangeFilter (Some indexPattern) timeRange now =
      Some (buildRangeFilter timefield ?params indexPattern)"
    by (rule getTime_found [OF assms])
  have has_gte: "(''gte'' \<in> fst ` set ?params) =
      (parse (from_expr timeRange) \<lparr>roundUp = None, forceNowOpt = now\<rparr> \<noteq> None)"
    by (simp only: rangeParams_has_gte calculateBounds_min)
  have has_lte: "(''lte'' \<in> fst ` set ?params) =
      (parse (to_expr timeRange) \<lparr>roundUp = Some True, forceNowOpt = now\<rparr> \<noteq> None)"
    by (simp only: rangeParams_has_lte calculateBounds_max)
  have gte: "map_of ?params ''gte'' =
      map_option toISOString
        (parse (from_expr timeRange) \<lparr>roundUp = None, forceNowOpt = now\<rparr>)"
    by (simp only: rangeParams_gte calculateBounds_min)
  have lte: "map_of ?params ''lte'' =
      map_option toISOString
        (parse (to_expr timeRange) \<lparr>roundUp = Some True, forceNowOpt = now\<rparr>)"
    by (simp only: rangeParams_lte calculateBounds_max)
  have mem: "((''format'', JSString ''strict_date_optional_time'')) \<in> set ?params"
    by (simp add: rangeParams_def)
  have fmt: "map_of ?params ''format'' = Some (JSString ''strict_date_optional_time'')"
    by (rule rangeParams_format)
  have alone: "parse (from_expr timeRange) \<lparr>roundUp = None, forceNowOpt = now\<rparr> = None \<and>
      parse (to_expr timeRange) \<lparr>roundUp = Some True, forceNowOpt = now\<rparr> = None \<longrightarrow>
      ?params = [(''format'', JSString ''strict_date_optional_time'')]"
    by (simp add: rangeParams_def calculateBounds_def)
  show ?thesis
    apply (rule exI [of _ ?params])
    apply (intro conjI)
    apply (rule run, rule refl, rule has_gte, rule has_lte, rule gte, rule lte, rule mem,
           rule fmt, rule alone)
    done
qed

theorem getTime_found_always_filter_witness:
  "getTime (observed_parse clock_reading) observed_toISOString example_buildRangeFilter
     (Some logs_pattern)
     \<lparr>from_expr = '''', to_expr = ''now+''\<rparr> (Some ''2020-05-01T12:00:00.000Z'') =
     Some (\<lparr>name = ''@timestamp''\<rparr>,
           [(''format'', JSString ''strict_date_optional_time'')],
           logs_pattern) \<and>
   getTime (observed_parse clock_reading) observed_toISOString example_buildRangeFilter
     (Some logs_pattern)
     \<lparr>from_expr = ''now'', to_expr = ''now''\<rparr> (Some ''2020-05-01T12:00:00.000Z'') =
     Some (\<lparr>name = ''@timestamp''\<rparr>,
           [(''gte'', JSString ''2020-05-01T12:00:00.000Z''),
            (''lte'', JSString ''2020-05-01T12:00:00.000Z''),
            (''format'', JSString ''strict_date_optional_time'')],
           logs_pattern)"
proof -
  from getTime_found_always_filter [OF find_logs_pattern,
      where parse = "observed_parse clock_reading"
      and toISOString = observed_toISOString and buildRangeFilter = example_buildRangeFilter
      and timeRange = "\<lparr>from_expr = '''', to_expr = ''now+''\<rparr>"
      and now = "Some ''2020-05-01T12:00:00.000Z''"]
  obtain params where
    run: "getTime (observed_parse clock_reading) observed_toISOString
            example_buildRangeFilter (Some logs_pattern)
            \<lparr>from_expr = '''', to_expr = ''now+''\<rparr> (Some ''2020-05-01T12:00:00.000Z'') =
          Some (example_buildRangeFilter \<lparr>name = ''@timestamp''\<rparr> params logs_pattern)" and
    alone: "observed_parse clock_reading
              (from_expr \<lparr>from_expr = '''', to_expr = ''now+''\<rparr>)
              \<lparr>roundUp = None, forceNowOpt = Some ''2020-05-01T12:00:00.000Z''\<rparr> = None \<and>
            observed_parse clock_reading
              (to_expr \<lparr>from_expr = '''', to_expr = ''now+''\<rparr>)
              \<lparr>roundUp = Some True, forceNowOpt = Some ''2020-05-01T12:00:00.000Z''\<rparr> = None \<longrightarrow>
            params = [(''format'', JSString ''strict_date_optional_time'')]"
    by blast
  from alone have "params = [(''format'', JSString ''strict_date_optional_time'')]"
    by (simp add: observed_parse_def)
  with run have first: "getTime (observed_parse clock_reading) observed_toISOString
       example_buildRangeFilter (Some logs_pattern)
       \<lparr>from_expr = '''', to_expr = ''now+''\<rparr> (Some ''2020-05-01T12:00:00.000Z'') =
     Some (\<lparr>name = ''@timestamp''\<rparr>, [(''format'', JSString ''strict_date_optional_time'')], logs_pattern)"
    by (simp add: example_buildRangeFilter_def)
  from getTime_found_always_filter [OF find_logs_pattern,
      where parse = "observed_parse clock_reading"
      and toISOString = observed_toISOString and buildRangeFilter = example_buildRangeFilter
      and timeRange = "\<lparr>from_expr = ''now'', to_expr = ''now''\<rparr>"
      and now = "Some ''2020-05-01T12:00:00.000Z''"]
  obtain params' where
    run': "getTime (observed_parse clock_reading) observed_toISOString
            example_buildRangeFilter (Some logs_pattern)
            \<lparr>from_expr = ''now'', to_expr = ''now''\<rparr> (Some ''2020-05-01T12:00:00.000Z'') =
          Some (example_buildRangeFilter \<lparr>name = ''@timestamp''\<rparr> params' logs_pattern)" and
    params': "params' = rangeParams observed_toISOString
               (calculateBounds (observed_parse clock_reading)
                  \<lparr>from_expr = ''now'', to_expr = ''now''\<rparr>
                  (Some \<lparr>forceNow = Some ''2020-05-01T12:00:00.000Z''\<rparr>))"
    by blast
  from params' have "params' =
      [(''gte'', JSString ''2020-05-01T12:00:00.000Z''), (''lte'', JSString ''2020-05-01T12:00:00.000Z''), (''format'', JSString ''strict_date_optional_time'')]"
    by (simp add: rangeParams_def calculateBounds_def observed_parse_def)
  with run' have second: "getTime (observed_parse clock_reading) observed_toISOString
       example_buildRangeFilter (Some logs_pattern)
       \<lparr>from_expr = ''now'', to_expr = ''now''\<rparr> (Some ''2020-05-01T12:00:00.000Z'') =
     Some (\<lparr>name = ''@timestamp''\<rparr>,
           [(''gte'', JSString ''2020-05-01T12:00:00.000Z''), (''lte'', JSString ''2020-05-01T12:00:00.000Z''), (''format'', JSString ''strict_date_optional_time'')],
           logs_pattern)"
    by (simp add: example_buildRangeFilter_def)
  from first second show ?thesis by (rule conjI)
qed

text \<open>
  C8, as the specification states it, fails: an unparseable bound does not always leave
  out its key. For the time range from \<^verbatim>\<open>then\<close> to \<^verbatim>\<open>soon\<close>, neither text parses to an
  instant: \<^verbatim>\<open>dateMath.parse\<close> returns a moment that is not valid for each. The params of the
  filter that \<open>getTime\<close> returns carry both keys all the same, \<^verbatim>\<open>gte: null\<close> and
  \<^verbatim>\<open>lte: null\<close>.
\<close>

theorem getTime_invalid_moment_counterexample:
  "observed_parse clock_reading ''then'' \<lparr>roundUp = None, forceNowOpt = None\<rparr> =
     Some InvalidMoment \<and>
   observed_parse clock_reading ''soon'' \<lparr>roundUp = Some True, forceNowOpt = None\<rparr> =
     Some InvalidMoment \<and>
   getTime (observed_parse clock_reading) observed_toISOString example_buildRangeFilter
     (Some logs_pattern)
     \<lparr>from_expr = ''then'', to_expr = ''soon''\<rparr> None =
     Some (\<lparr>name = ''@timestamp''\<rparr>,
           [(''gte'', JSNull), (''lte'', JSNull), (''format'', JSString ''strict_date_optional_time'')],
           logs_pattern) \<and>
   map_of [(''gte'', JSNull), (''lte'', JSNull), (''format'', JSString ''strict_date_optional_time'')] ''gte'' = Some JSNull \<and>
   map_of [(''gte'', JSNull), (''lte'', JSNull), (''format'', JSString ''strict_date_optional_time'')] ''lte'' = Some JSNull"
  by (simp add: run_simps)

text \<open>
  C9, as the code has it. The two bounds are handled independently. With the time field
  found: if \<^verbatim>\<open>from\<close> parses to an instant and \<^verbatim>\<open>dateMath.parse\<close> returns \<^verbatim>\<open>undefined\<close> for
  \<^verbatim>\<open>to\<close>, the params are \<^verbatim>\<open>{ gte, format }\<close> with no \<^verbatim>\<open>lte\<close>; if \<^verbatim>\<open>to\<close> parses to an instant
  and \<^verbatim>\<open>dateMath.parse\<close> returns \<^verbatim>\<open>undefined\<close> for \<^verbatim>\<open>from\<close>, the params are
  \<^verbatim>\<open>{ lte, format }\<close> with no \<^verbatim>\<open>gte\<close>.
\<close>

theorem getTime_one_sided:
  assumes "find (\<lambda>field. Some (name field) = timeFieldName indexPattern)
             (fields_list indexPattern) = Some timefield"
  shows "(parse (from_expr timeRange) \<lparr>roundUp = None, forceNowOpt = now\<rparr> = Some lo \<and>
          parse (to_expr timeRange) \<lparr>roundUp = Some True, forceNowOpt = now\<rparr> = None \<longrightarrow>
          getTime parse toISOString buildRangeFilter (Some indexPattern) timeRange now =
            Some (buildRangeFilter timefield
                    [(''gte'', toISOString lo), (''format'', JSString ''strict_date_optional_time'')]
                    indexPattern) \<and>
          map_of [(''gte'', toISOString lo), (''format'', JSString ''strict_date_optional_time'')]
            ''lte'' = None) \<and>
         (parse (from_expr timeRange) \<lparr>roundUp = None, forceNowOpt = now\<rparr> = None \<and>
          parse (to_expr timeRange) \<lparr>roundUp = Some True, forceNowOpt = now\<rparr> = Some hi \<longrightarrow>
          getTime parse toISOString buildRangeFilter (Some indexPattern) timeRange now =
            Some (buildRangeFilter timefield
                    [(''lte'', toISOString hi), (''format'', JSString ''strict_date_optional_time'')]
                    indexPattern) \<and>
          map_of [(''lte'', toISOString hi), (''format'', JSString ''strict_date_optional_time'')]
            ''gte'' = None)"
  by (simp add: getTime_found [OF assms] rangeParams_def calculateBounds_def)

theorem getTime_one_sided_witness:
  "getTime (observed_parse clock_reading) observed_toISOString example_buildRangeFilter
     (Some logs_pattern)
     \<lparr>from_expr = ''now'', to_expr = ''now+''\<rparr> (Some ''2020-05-01T12:00:00.000Z'') =
     Some (\<lparr>name = ''@timestamp''\<rparr>,
           [(''gte'', JSString ''2020-05-01T12:00:00.000Z''),
            (''format'', JSString ''strict_date_optional_time'')],
           logs_pattern) \<and>
   getTime (observed_parse clock_reading) observed_toISOString example_buildRangeFilter
     (Some logs_pattern)
     \<lparr>from_expr = '''', to_expr = ''now''\<rparr> (Some ''2020-05-01T12:00:00.000Z'') =
     Some (\<lparr>name = ''@timestamp''\<rparr>,
           [(''lte'', JSString ''2020-05-01T12:00:00.000Z''),
            (''format'', JSString ''strict_date_optional_time'')],
           logs_pattern)"
proof -
  have lo: "observed_parse clock_reading
              (from_expr \<lparr>from_expr = ''now'', to_expr = ''now+''\<rparr>)
              \<lparr>roundUp = None, forceNowOpt = Some ''2020-05-01T12:00:00.000Z''\<rparr> =
              Some (Instant ''2020-05-01T12:00:00.000Z'') \<and>
            observed_parse clock_reading
              (to_expr \<lparr>from_expr = ''now'', to_expr = ''now+''\<rparr>)
              \<lparr>roundUp = Some True, forceNowOpt = Some ''2020-05-01T12:00:00.000Z''\<rparr> = None"
    by (simp add: observed_parse_def)
  have hi: "observed_parse clock_reading
              (from_expr \<lparr>from_expr = '''', to_expr = ''now''\<rparr>)
              \<lparr>roundUp = None, forceNowOpt = Some ''2020-05-01T12:00:00.000Z''\<rparr> = None \<and>
            observed_parse clock_reading
              (to_expr \<lparr>from_expr = '''', to_expr = ''now''\<rparr>)
              \<lparr>roundUp = Some True, forceNowOpt = Some ''2020-05-01T12:00:00.000Z''\<rparr> =
              Some (Instant ''2020-05-01T12:00:00.000Z'')"
    by (simp add: observed_parse_def)
  from lo getTime_one_sided [OF find_logs_pattern,
      where parse = "observed_parse clock_reading"
      and toISOString = observed_toISOString and buildRangeFilter = example_buildRangeFilter
      and timeRange = "\<lparr>from_expr = ''now'', to_expr = ''now+''\<rparr>"
      and now = "Some ''2020-05-01T12:00:00.000Z''" and lo = "Instant ''2020-05-01T12:00:00.000Z''"]
  have first: "getTime (observed_parse clock_reading) observed_toISOString
       example_buildRangeFilter (Some logs_pattern)
       \<lparr>from_expr = ''now'', to_expr = ''now+''\<rparr> (Some ''2020-05-01T12:00:00.000Z'') =
     Some (example_buildRangeFilter \<lparr>name = ''@timestamp''\<rparr>
             [(''gte'', observed_toISOString (Instant ''2020-05-01T12:00:00.000Z'')),
              (''format'', JSString ''strict_date_optional_time'')]
             logs_pattern)"
    by blast
  from hi getTime_one_sided [OF find_logs_pattern,
      where parse = "observed_parse clock_reading"
      and toISOString = observed_toISOString and buildRangeFilter = example_buildRangeFilter
      and timeRange = "\<lparr>from_expr = '''', to_expr = ''now''\<rparr>"
      and now = "Some ''2020-05-01T12:00:00.000Z''" and hi = "Instant ''2020-05-01T12:00:00.000Z''"]
  have second: "getTime (observed_parse clock_reading) observed_toISOString
       example_buildRangeFilter (Some logs_pattern)
       \<lparr>from_expr = '''', to_expr = ''now''\<rparr> (Some ''2020-05-01T12:00:00.000Z'') =
     Some (example_buildRangeFilter \<lparr>name = ''@timestamp''\<rparr>
             [(''lte'', observed_toISOString (Instant ''2020-05-01T12:00:00.000Z'')),
              (''format'', JSString ''strict_date_optional_time'')]
             logs_pattern)"
    by blast
  from first second show ?thesis
    by (simp add: example_buildRangeFilter_def)
qed

text \<open>
  C9, as the specification states it, fails: a bound that does not parse is not always
  left out. For the time range from \<^verbatim>\<open>now\<close> to \<^verbatim>\<open>soon\<close>, exactly one bound parses to an
  instant: \<^verbatim>\<open>from\<close> is the moment of \<^verbatim>\<open>forceNow\<close>, and for \<^verbatim>\<open>to\<close> \<^verbatim>\<open>dateMath.parse\<close> returns a
  moment that is not valid. The params have \<^verbatim>\<open>gte\<close> and also \<^verbatim>\<open>lte\<close>, which is \<^verbatim>\<open>null\<close>.
\<close>

theorem getTime_one_sided_counterexample:
  "observed_parse clock_reading ''now'' \<lparr>roundUp = None, forceNowOpt = Some ''2020-05-01T12:00:00.000Z''\<rparr> =
     Some (Instant ''2020-05-01T12:00:00.000Z'') \<and>
   observed_parse clock_reading ''soon'' \<lparr>roundUp = Some True, forceNowOpt = Some ''2020-05-01T12:00:00.000Z''\<rparr> =
     Some InvalidMoment \<and>
   getTime (observed_parse clock_reading) observed_toISOString example_buildRangeFilter
     (Some logs_pattern)
     \<lparr>from_expr = ''now'', to_expr = ''soon''\<rparr> (Some ''2020-05-01T12:00:00.000Z'') =
     Some (\<lparr>name = ''@timestamp''\<rparr>,
           [(''gte'', JSString ''2020-05-01T12:00:00.000Z''), (''lte'', JSNull), (''format'', JSString ''strict_date_optional_time'')],
           logs_pattern) \<and>
   map_of [(''gte'', JSString ''2020-05-01T12:00:00.000Z''), (''lte'', JSNull), (''format'', JSString ''strict_date_optional_time'')] ''lte'' \<noteq> None"
  by (simp add: run_simps)

end
